theory Spec2Isabelle
  imports Main "HOL-Library.Sublist"
begin

section \<open>JavaScript values\<close>

text \<open>
  The values that flow through \<^verbatim>\<open>packages/core/src/code_assist/server.ts\<close>:
  plain data (what \<^verbatim>\<open>JSON.parse\<close> returns, what a request body or an error
  payload holds), together with \<^verbatim>\<open>undefined\<close>. An object is the list of its own
  properties, looked up by key. Strings are lists of 8-bit code units; numbers are
  integers (no claim depends on a fractional number).
\<close>

datatype jsval =
    JUndefined
  | JNull
  | JBool bool
  | JNum int
  | JStr string
  | JArr "jsval list"
  | JObj "(string \<times> jsval) list"

text \<open>
  What a \<^verbatim>\<open>throw\<close> or a rejected promise carries: a value thrown by the
  transport (the error object of the HTTP client, as data), or one of the built-in error
  objects: a \<^verbatim>\<open>TypeError\<close> (a property read on \<^verbatim>\<open>null\<close> or
  \<^verbatim>\<open>undefined\<close>), a \<^verbatim>\<open>SyntaxError\<close> (from \<^verbatim>\<open>JSON.parse\<close>), or
  an \<^verbatim>\<open>Error\<close> with its message.
\<close>

datatype thrown =
    Thrown jsval
  | TypeError
  | SyntaxError string
  | ErrorObj string

text \<open>Truthiness, as the \<^verbatim>\<open>&&\<close> of \<^verbatim>\<open>isVpcScAffectedUser\<close> tests it.\<close>

fun truthy :: "jsval \<Rightarrow> bool" where
  "truthy JUndefined = False"
| "truthy JNull = False"
| "truthy (JBool b) = b"
| "truthy (JNum n) = (n \<noteq> 0)"
| "truthy (JStr s) = (s \<noteq> [])"
| "truthy (JArr xs) = True"
| "truthy (JObj kvs) = True"

fun typeof :: "jsval \<Rightarrow> string" where
  "typeof JUndefined = ''undefined''"
| "typeof JNull = ''object''"
| "typeof (JBool b) = ''boolean''"
| "typeof (JNum n) = ''number''"
| "typeof (JStr s) = ''string''"
| "typeof (JArr xs) = ''object''"
| "typeof (JObj kvs) = ''object''"

text \<open>
  \<^verbatim>\<open>k in v\<close> for a value \<open>v\<close> that is already known to be an object. The keys
  the source asks for (\<^verbatim>\<open>'response'\<close>) are not defined on any built-in prototype,
  so only own properties count, and an array has none of that name.
\<close>

fun hasProperty :: "string \<Rightarrow> jsval \<Rightarrow> bool" where
  "hasProperty k (JObj kvs) = (map_of kvs k \<noteq> None)"
| "hasProperty k v = False"

text \<open>
  The property read \<^verbatim>\<open>v.k\<close>: a \<^verbatim>\<open>TypeError\<close> on \<^verbatim>\<open>null\<close> and
  \<^verbatim>\<open>undefined\<close>, the property's value on an object, \<^verbatim>\<open>undefined\<close> where
  the object has no such property and on every other value (the names read here,
  \<^verbatim>\<open>response\<close>, \<^verbatim>\<open>data\<close>, \<^verbatim>\<open>error\<close>, \<^verbatim>\<open>details\<close> and
  \<^verbatim>\<open>reason\<close>, are not properties of arrays, strings, numbers or booleans).
\<close>

fun getProp :: "jsval \<Rightarrow> string \<Rightarrow> thrown + jsval" where
  "getProp JUndefined k = Inl TypeError"
| "getProp JNull k = Inl TypeError"
| "getProp (JObj kvs) k = Inr (case map_of kvs k of None \<Rightarrow> JUndefined | Some x \<Rightarrow> x)"
| "getProp v k = Inr JUndefined"

text \<open>The optional chain \<^verbatim>\<open>v?.k\<close>: \<^verbatim>\<open>undefined\<close> on \<^verbatim>\<open>null\<close> and \<^verbatim>\<open>undefined\<close>.\<close>

fun optGet :: "jsval \<Rightarrow> string \<Rightarrow> jsval" where
  "optGet JUndefined k = JUndefined"
| "optGet JNull k = JUndefined"
| "optGet (JObj kvs) k = (case map_of kvs k of None \<Rightarrow> JUndefined | Some x \<Rightarrow> x)"
| "optGet v k = JUndefined"

section \<open>Strings\<close>

definition startsWith :: "string \<Rightarrow> string \<Rightarrow> bool" where
  "startsWith p s = (take (length p) s = p)"

text \<open>
  The white space that \<^verbatim>\<open>String.prototype.trim\<close> removes, among the code units
  below 256: tab, line feed, vertical tab, form feed, carriage return, space and the
  no-break space.
\<close>

definition isWhiteSpace :: "char \<Rightarrow> bool" where
  "isWhiteSpace c = (c \<in> set [CHR 0x09, CHR 0x0A, CHR 0x0B, CHR 0x0C, CHR 0x0D, CHR 0x20, CHR 0xA0])"

definition trim :: "string \<Rightarrow> string" where
  "trim s = rev (dropWhile isWhiteSpace (rev (dropWhile isWhiteSpace s)))"

fun join :: "string \<Rightarrow> string list \<Rightarrow> string" where
  "join sep [] = []"
| "join sep [x] = x"
| "join sep (x # y # ys) = x @ sep @ join sep (y # ys)"

section \<open>The environment of a call\<close>

text \<open>
  An abort signal is an opaque token for the code: it is handed to the transport and
  never read. It is identified here by when it fires, counted in messages already
  yielded to the consumer.
\<close>

datatype AbortSignal = FiresAfter nat | NeverFires

record http_request =
  req_url :: string
  req_method :: string
  req_params :: "(string \<times> string) list"
  req_headers :: "string \<rightharpoonup> string"
  req_responseType :: string
  req_body :: "string option"
  req_signal :: "AbortSignal option"

text \<open>
  The transport (\<^verbatim>\<open>client.request\<close> of the OAuth2 client) is external: for a request
  it either fails with a thrown value or answers; the answer's \<^verbatim>\<open>data\<close> is a parsed
  JSON body when the request asks for \<^verbatim>\<open>responseType: 'json'\<close>, and a stream when it
  asks for \<^verbatim>\<open>'stream'\<close>, given here as the finite sequence of lines that
  \<^verbatim>\<open>readline\<close> cuts it into before it ends.
\<close>

record client =
  request_json :: "http_request \<Rightarrow> thrown + jsval"
  request_stream :: "http_request \<Rightarrow> thrown + string list"

text \<open>
  What the module takes from its runtime and its imports: \<^verbatim>\<open>process.env\<close>,
  \<^verbatim>\<open>JSON.parse\<close> (which throws on a text that is not JSON), \<^verbatim>\<open>JSON.stringify\<close>,
  the enum member \<^verbatim>\<open>UserTierId.STANDARD\<close> of \<^verbatim>\<open>types.ts\<close> and the converters of
  \<^verbatim>\<open>converter.ts\<close>; none of them is defined in the files at hand, so they are
  parameters.
\<close>

record runtime =
  process_env :: "string \<rightharpoonup> string"
  JSON_parse :: "string \<Rightarrow> thrown + jsval"
  JSON_stringify :: "jsval \<Rightarrow> string"
  UserTierId_STANDARD :: jsval
  toCountTokenRequest :: "jsval \<Rightarrow> jsval"
  fromCountTokenResponse :: "jsval \<Rightarrow> jsval"

section \<open>The session logger\<close>

datatype LogObjectType = MODEL_REQUEST | MODEL_RESPONSE | TOOL_CALL_SCHEDULE | TOOL_CALL_RESULT


text \<open>
  \<^verbatim>\<open>log\<close> is an \<^verbatim>\<open>async\<close> method: a call returns a promise, and whatever goes
  wrong inside the body settles that promise as rejected. \<open>settled\<close> is how the promise
  of one call ends.
\<close>

datatype settled = Resolved | Rejected thrown

type_synonym log_fn = "LogObjectType \<Rightarrow> jsval \<Rightarrow> settled"




section \<open>The server\<close>

record CodeAssistServer =
  client :: client
  projectId :: "string option"
  httpOptions_headers :: "string \<rightharpoonup> string"
  sessionId :: "string option"
  userTier :: "jsval option"
  sessionLogger :: "log_fn option"

definition CODE_ASSIST_ENDPOINT :: string where
  "CODE_ASSIST_ENDPOINT = ''https://cloudcode-pa.googleapis.com''"

definition CODE_ASSIST_API_VERSION :: string where
  "CODE_ASSIST_API_VERSION = ''v1internal''"

definition getMethodUrl :: "runtime \<Rightarrow> string \<Rightarrow> string" where
  "getMethodUrl rt method =
     (let endpoint = (case process_env rt ''CODE_ASSIST_ENDPOINT'' of
                        None \<Rightarrow> CODE_ASSIST_ENDPOINT
                      | Some v \<Rightarrow> v)
      in endpoint @ ''/'' @ CODE_ASSIST_API_VERSION @ '':'' @ method)"

text \<open>
  What a call does besides returning: the invocations of the logger, each with the
  promise it returned (which the code drops), and the messages a generator yields.
\<close>

datatype event = LogCall LogObjectType jsval settled | Yield jsval

text \<open>\<^verbatim>\<open>this.sessionLogger?.log(type, data)\<close>, not awaited.\<close>

fun call_log :: "log_fn option \<Rightarrow> LogObjectType \<Rightarrow> jsval \<Rightarrow> event list" where
  "call_log None type data = []"
| "call_log (Some lg) type data = [LogCall type data (lg type data)]"

definition json_headers :: "CodeAssistServer \<Rightarrow> string \<rightharpoonup> string" where
  "json_headers srv = [''Content-Type'' \<mapsto> ''application/json''] ++ httpOptions_headers srv"

definition requestPost ::
  "runtime \<Rightarrow> CodeAssistServer \<Rightarrow> string \<Rightarrow> jsval \<Rightarrow> AbortSignal option \<Rightarrow>
   event list \<times> (thrown + jsval)" where
  "requestPost rt srv method req signal =
     (let url = getMethodUrl rt method;
          evs = call_log (sessionLogger srv) MODEL_REQUEST
                  (JObj [(''url'', JStr url), (''method'', JStr ''POST''), (''body'', req)])
      in case request_json (client srv)
                \<lparr>req_url = url, req_method = ''POST'', req_params = [],
                 req_headers = json_headers srv, req_responseType = ''json'',
                 req_body = Some (JSON_stringify rt req), req_signal = signal\<rparr> of
           Inl e \<Rightarrow> (evs, Inl e)
         | Inr data \<Rightarrow>
             (evs @ call_log (sessionLogger srv) MODEL_RESPONSE
                      (JObj [(''url'', JStr url), (''method'', JStr ''POST''), (''response'', data)]),
              Inr data))"

definition requestGet ::
  "runtime \<Rightarrow> CodeAssistServer \<Rightarrow> string \<Rightarrow> AbortSignal option \<Rightarrow>
   event list \<times> (thrown + jsval)" where
  "requestGet rt srv method signal =
     (let url = getMethodUrl rt method;
          evs = call_log (sessionLogger srv) MODEL_REQUEST
                  (JObj [(''url'', JStr url), (''method'', JStr ''GET'')])
      in case request_json (client srv)
                \<lparr>req_url = url, req_method = ''GET'', req_params = [],
                 req_headers = json_headers srv, req_responseType = ''json'',
                 req_body = None, req_signal = signal\<rparr> of
           Inl e \<Rightarrow> (evs, Inl e)
         | Inr data \<Rightarrow>
             (evs @ call_log (sessionLogger srv) MODEL_RESPONSE
                      (JObj [(''url'', JStr url), (''method'', JStr ''GET''), (''response'', data)]),
              Inr data))"

subsection \<open>The streaming call and its decoder\<close>

text \<open>\<^verbatim>\<open>line.slice(6).trim()\<close>\<close>

definition fragment :: "string \<Rightarrow> string" where
  "fragment line = trim (drop 6 line)"

definition response_payload :: "string \<Rightarrow> jsval \<Rightarrow> jsval" where
  "response_payload url chunk =
     JObj [(''url'', JStr url), (''method'', JStr ''POST''), (''response'', chunk)]"

text \<open>
  The body of the generator that \<^verbatim>\<open>requestStreamingPost\<close> returns, run until the
  line stream ends or the body throws: the loop over the lines, with \<open>bufferedLines\<close> as
  an argument. The result is what happened in order and how the generator ended
  (\<open>None\<close>: it completed, \<open>Some e\<close>: it threw \<open>e\<close>). A consumer that stops pulling early
  sees a prefix of the events.
\<close>

fun decode_loop ::
  "runtime \<Rightarrow> log_fn option \<Rightarrow> string \<Rightarrow> string list \<Rightarrow> string list \<Rightarrow>
   event list \<times> thrown option" where
  "decode_loop rt lg url bufferedLines [] = ([], None)"
| "decode_loop rt lg url bufferedLines (line # rest) =
     (if line = '''' then
        (if length bufferedLines = 0 then decode_loop rt lg url bufferedLines rest
         else
           (case JSON_parse rt (join [CHR 0x0A] bufferedLines) of
              Inl e \<Rightarrow> ([], Some e)
            | Inr chunk \<Rightarrow>
                (case decode_loop rt lg url [] rest of
                   (evs, r) \<Rightarrow>
                     (call_log lg MODEL_RESPONSE (response_payload url chunk) @ Yield chunk # evs, r))))
      else if startsWith ''data: '' line then
        decode_loop rt lg url (bufferedLines @ [fragment line]) rest
      else ([], Some (ErrorObj (''Unexpected line format in response: '' @ line))))"

definition requestStreamingPost ::
  "runtime \<Rightarrow> CodeAssistServer \<Rightarrow> string \<Rightarrow> jsval \<Rightarrow> AbortSignal option \<Rightarrow>
   event list \<times> (thrown + event list \<times> thrown option)" where
  "requestStreamingPost rt srv method req signal =
     (let url = getMethodUrl rt method;
          evs = call_log (sessionLogger srv) MODEL_REQUEST
                  (JObj [(''url'', JStr url), (''method'', JStr ''POST''),
                         (''params'', JObj [(''alt'', JStr ''sse'')]), (''body'', req)])
      in case request_stream (client srv)
                \<lparr>req_url = url, req_method = ''POST'', req_params = [(''alt'', ''sse'')],
                 req_headers = json_headers srv, req_responseType = ''stream'',
                 req_body = Some (JSON_stringify rt req), req_signal = signal\<rparr> of
           Inl e \<Rightarrow> (evs, Inl e)
         | Inr lines \<Rightarrow> (evs, Inr (decode_loop rt (sessionLogger srv) url [] lines)))"

text \<open>The messages among the events, in the order they were yielded.\<close>

fun yielded :: "event list \<Rightarrow> jsval list" where
  "yielded [] = []"
| "yielded (Yield c # evs) = c # yielded evs"
| "yielded (LogCall t d s # evs) = yielded evs"


subsection \<open>The error classifier and the operations\<close>

text \<open>
  \<^verbatim>\<open>details.some((detail) => detail.reason === 'SECURITY_POLICY_VIOLATED')\<close>: the
  entries in order, stopping at the first match; the read of \<^verbatim>\<open>reason\<close> is a plain
  property read.
\<close>

fun some_reason :: "jsval list \<Rightarrow> thrown + bool" where
  "some_reason [] = Inr False"
| "some_reason (detail # details) =
     (case getProp detail ''reason'' of
        Inl e \<Rightarrow> Inl e
      | Inr r \<Rightarrow> if r = JStr ''SECURITY_POLICY_VIOLATED'' then Inr True else some_reason details)"

definition isVpcScAffectedUser_value :: "jsval \<Rightarrow> thrown + bool" where
  "isVpcScAffectedUser_value error =
     (if truthy error \<and> typeof error = ''object'' \<and> hasProperty ''response'' error then
        (let response = optGet (optGet error ''response'') ''data''
         in case optGet (optGet response ''error'') ''details'' of
              JArr details \<Rightarrow> some_reason details
            | _ \<Rightarrow> Inr False)
      else Inr False)"

text \<open>
  The classifier on whatever was caught. The built-in error objects are objects without
  a \<^verbatim>\<open>response\<close> property.
\<close>

fun isVpcScAffectedUser :: "thrown \<Rightarrow> thrown + bool" where
  "isVpcScAffectedUser (Thrown v) = isVpcScAffectedUser_value v"
| "isVpcScAffectedUser e = Inr False"

definition onboardUser ::
  "runtime \<Rightarrow> CodeAssistServer \<Rightarrow> jsval \<Rightarrow> event list \<times> (thrown + jsval)" where
  "onboardUser rt srv req = requestPost rt srv ''onboardUser'' req None"

definition loadCodeAssist ::
  "runtime \<Rightarrow> CodeAssistServer \<Rightarrow> jsval \<Rightarrow> event list \<times> (thrown + jsval)" where
  "loadCodeAssist rt srv req =
     (case requestPost rt srv ''loadCodeAssist'' req None of
        (evs, Inr v) \<Rightarrow> (evs, Inr v)
      | (evs, Inl e) \<Rightarrow>
          (case isVpcScAffectedUser e of
             Inl e' \<Rightarrow> (evs, Inl e')
           | Inr True \<Rightarrow>
               (evs, Inr (JObj [(''currentTier'', JObj [(''id'', UserTierId_STANDARD rt)])]))
           | Inr False \<Rightarrow> (evs, Inl e)))"

definition getCodeAssistGlobalUserSetting ::
  "runtime \<Rightarrow> CodeAssistServer \<Rightarrow> event list \<times> (thrown + jsval)" where
  "getCodeAssistGlobalUserSetting rt srv = requestGet rt srv ''getCodeAssistGlobalUserSetting'' None"

definition setCodeAssistGlobalUserSetting ::
  "runtime \<Rightarrow> CodeAssistServer \<Rightarrow> jsval \<Rightarrow> event list \<times> (thrown + jsval)" where
  "setCodeAssistGlobalUserSetting rt srv req =
     requestPost rt srv ''setCodeAssistGlobalUserSetting'' req None"

definition countTokens ::
  "runtime \<Rightarrow> CodeAssistServer \<Rightarrow> jsval \<Rightarrow> event list \<times> (thrown + jsval)" where
  "countTokens rt srv req =
     (case requestPost rt srv ''countTokens'' (toCountTokenRequest rt req) None of
        (evs, Inl e) \<Rightarrow> (evs, Inl e)
      | (evs, Inr resp) \<Rightarrow> (evs, Inr (fromCountTokenResponse rt resp)))"

text \<open>\<^verbatim>\<open>throw Error()\<close>: an \<^verbatim>\<open>Error\<close> with the empty message.\<close>

definition embedContent ::
  "runtime \<Rightarrow> CodeAssistServer \<Rightarrow> jsval \<Rightarrow> event list \<times> (thrown + jsval)" where
  "embedContent rt srv req = ([], Inl (ErrorObj ''''))"

subsection \<open>What a consumer of a streaming call observes\<close>


section \<open>A logger object of any behaviour\<close>

text \<open>
  The definitions above take \<^verbatim>\<open>log\<close> as what \<^verbatim>\<open>SessionLogger\<close> declares: an
  \<^verbatim>\<open>async\<close> method, whose call always returns a promise. The calls in
  \<^verbatim>\<open>server.ts\<close> are bare expression statements,
  \<^verbatim>\<open>this.sessionLogger?.log(...)\<close>, inside no \<^verbatim>\<open>try\<close> and with no
  \<^verbatim>\<open>.catch\<close>. So for an object whose \<^verbatim>\<open>log\<close> throws at the call itself (one
  that is not an \<^verbatim>\<open>async\<close> function), the exception leaves the enclosing function:
  it rejects the unary call, rejects the streaming call when thrown before the
  generator exists, and ends the generator when thrown inside it. The definitions of
  this section are the same functions for such an object: \<open>lg\<close> stands for
  \<^verbatim>\<open>this.sessionLogger\<close> (the field \<open>sessionLogger\<close> of \<open>srv\<close> is not read), and
  a call to it either returns its promise or throws.

  A promise that rejects is dropped by the code as one that resolves is: it changes
  neither the value nor the error of the call. It is left unhandled, though, and what
  the host does then (a default Node host ends the process) is outside these
  definitions; \<open>rejections\<close> lists the unhandled rejections of a run.
\<close>

datatype log_call = Returned settled | Threw thrown

type_synonym any_log_fn = "LogObjectType \<Rightarrow> jsval \<Rightarrow> log_call"

text \<open>
  \<^verbatim>\<open>this.sessionLogger?.log(type, data)\<close>: the event of a call that returned, or the
  exception of a call that threw.
\<close>

fun invoke_log ::
  "any_log_fn option \<Rightarrow> LogObjectType \<Rightarrow> jsval \<Rightarrow> event list \<times> thrown option" where
  "invoke_log None type data = ([], None)"
| "invoke_log (Some lg) type data =
     (case lg type data of
        Returned promise \<Rightarrow> ([LogCall type data promise], None)
      | Threw e \<Rightarrow> ([], Some e))"

definition requestPost_any ::
  "runtime \<Rightarrow> CodeAssistServer \<Rightarrow> any_log_fn option \<Rightarrow> string \<Rightarrow> jsval \<Rightarrow>
   AbortSignal option \<Rightarrow> event list \<times> (thrown + jsval)" where
  "requestPost_any rt srv lg method req signal =
     (let url = getMethodUrl rt method
      in case invoke_log lg MODEL_REQUEST
                (JObj [(''url'', JStr url), (''method'', JStr ''POST''), (''body'', req)]) of
           (evs, Some e) \<Rightarrow> (evs, Inl e)
         | (evs, None) \<Rightarrow>
             (case request_json (client srv)
                     \<lparr>req_url = url, req_method = ''POST'', req_params = [],
                      req_headers = json_headers srv, req_responseType = ''json'',
                      req_body = Some (JSON_stringify rt req), req_signal = signal\<rparr> of
                Inl e \<Rightarrow> (evs, Inl e)
              | Inr data \<Rightarrow>
                  (case invoke_log lg MODEL_RESPONSE
                          (JObj [(''url'', JStr url), (''method'', JStr ''POST''),
                                 (''response'', data)]) of
                     (evs', Some e) \<Rightarrow> (evs @ evs', Inl e)
                   | (evs', None) \<Rightarrow> (evs @ evs', Inr data))))"

definition requestGet_any ::
  "runtime \<Rightarrow> CodeAssistServer \<Rightarrow> any_log_fn option \<Rightarrow> string \<Rightarrow> AbortSignal option \<Rightarrow>
   event list \<times> (thrown + jsval)" where
  "requestGet_any rt srv lg method signal =
     (let url = getMethodUrl rt method
      in case invoke_log lg MODEL_REQUEST
                (JObj [(''url'', JStr url), (''method'', JStr ''GET'')]) of
           (evs, Some e) \<Rightarrow> (evs, Inl e)
         | (evs, None) \<Rightarrow>
             (case request_json (client srv)
                     \<lparr>req_url = url, req_method = ''GET'', req_params = [],
                      req_headers = json_headers srv, req_responseType = ''json'',
                      req_body = None, req_signal = signal\<rparr> of
                Inl e \<Rightarrow> (evs, Inl e)
              | Inr data \<Rightarrow>
                  (case invoke_log lg MODEL_RESPONSE
                          (JObj [(''url'', JStr url), (''method'', JStr ''GET''),
                                 (''response'', data)]) of
                     (evs', Some e) \<Rightarrow> (evs @ evs', Inl e)
                   | (evs', None) \<Rightarrow> (evs @ evs', Inr data))))"

fun decode_loop_any ::
  "runtime \<Rightarrow> any_log_fn option \<Rightarrow> string \<Rightarrow> string list \<Rightarrow> string list \<Rightarrow>
   event list \<times> thrown option" where
  "decode_loop_any rt lg url bufferedLines [] = ([], None)"
| "decode_loop_any rt lg url bufferedLines (line # rest) =
     (if line = '''' then
        (if length bufferedLines = 0 then decode_loop_any rt lg url bufferedLines rest
         else
           (case JSON_parse rt (join [CHR 0x0A] bufferedLines) of
              Inl e \<Rightarrow> ([], Some e)
            | Inr chunk \<Rightarrow>
                (case invoke_log lg MODEL_RESPONSE
                        (JObj [(''url'', JStr url), (''method'', JStr ''POST''),
                               (''response'', chunk)]) of
                   (evs, Some e) \<Rightarrow> (evs, Some e)
                 | (evs, None) \<Rightarrow>
                     (case decode_loop_any rt lg url [] rest of
                        (evs', r) \<Rightarrow> (evs @ Yield chunk # evs', r)))))
      else if startsWith ''data: '' line then
        decode_loop_any rt lg url (bufferedLines @ [fragment line]) rest
      else ([], Some (ErrorObj (''Unexpected line format in response: '' @ line))))"

definition requestStreamingPost_any ::
  "runtime \<Rightarrow> CodeAssistServer \<Rightarrow> any_log_fn option \<Rightarrow> string \<Rightarrow> jsval \<Rightarrow>
   AbortSignal option \<Rightarrow> event list \<times> (thrown + event list \<times> thrown option)" where
  "requestStreamingPost_any rt srv lg method req signal =
     (let url = getMethodUrl rt method
      in case invoke_log lg MODEL_REQUEST
                (JObj [(''url'', JStr url), (''method'', JStr ''POST''),
                       (''params'', JObj [(''alt'', JStr ''sse'')]), (''body'', req)]) of
           (evs, Some e) \<Rightarrow> (evs, Inl e)
         | (evs, None) \<Rightarrow>
             (case request_stream (client srv)
                     \<lparr>req_url = url, req_method = ''POST'', req_params = [(''alt'', ''sse'')],
                      req_headers = json_headers srv, req_responseType = ''stream'',
                      req_body = Some (JSON_stringify rt req), req_signal = signal\<rparr> of
                Inl e \<Rightarrow> (evs, Inl e)
              | Inr lines \<Rightarrow> (evs, Inr (decode_loop_any rt lg url [] lines))))"



section \<open>Concrete inputs\<close>

text \<open>
  Values on which the definitions above are run. \<open>sample_parse\<close> agrees with
  \<^verbatim>\<open>JSON.parse\<close> on the three texts of its table, and \<open>sample_stringify\<close> with
  \<^verbatim>\<open>JSON.stringify\<close> on the empty object, the empty array and \<^verbatim>\<open>null\<close>; they
  are applied to nothing else below.
\<close>

definition sample_parse :: "string \<Rightarrow> thrown + jsval" where
  "sample_parse text =
     (case map_of [(''1'', JNum 1), (''2'', JNum 2),
                   (''[1,'' @ [CHR 0x0A] @ ''2]'', JArr [JNum 1, JNum 2])] text of
        Some v \<Rightarrow> Inr v
      | None \<Rightarrow> Inl (SyntaxError text))"

definition sample_stringify :: "jsval \<Rightarrow> string" where
  "sample_stringify v = (if v = JObj [] then ''{}'' else if v = JArr [] then ''[]'' else ''null'')"

definition sample_runtime :: runtime where
  "sample_runtime =
     \<lparr>process_env = Map.empty, JSON_parse = sample_parse, JSON_stringify = sample_stringify,
      UserTierId_STANDARD = JStr ''standard-tier'',
      toCountTokenRequest = (\<lambda>v. v), fromCountTokenResponse = (\<lambda>v. v)\<rparr>"

definition sample_server :: "client \<Rightarrow> log_fn option \<Rightarrow> CodeAssistServer" where
  "sample_server c lg =
     \<lparr>client = c, projectId = None, httpOptions_headers = Map.empty, sessionId = None,
      userTier = None, sessionLogger = lg\<rparr>"

text \<open>A transport that fails every request with the error \<open>e\<close>.\<close>

definition failing_client :: "jsval \<Rightarrow> client" where
  "failing_client e =
     \<lparr>request_json = (\<lambda>r. Inl (Thrown e)), request_stream = (\<lambda>r. Inl (Thrown e))\<rparr>"

text \<open>
  A transport that answers every request: with the body \<open>v\<close>, or with a stream of the
  given lines.
\<close>

definition answering_client :: "jsval \<Rightarrow> string list \<Rightarrow> client" where
  "answering_client v lines =
     \<lparr>request_json = (\<lambda>r. Inr v), request_stream = (\<lambda>r. Inr lines)\<rparr>"

text \<open>
  The error of the HTTP client for a response whose body is
  \<^verbatim>\<open>{"error": {"details": [...]}}\<close>.
\<close>

definition policy_error :: "jsval list \<Rightarrow> jsval" where
  "policy_error details =
     JObj [(''response'', JObj [(''data'', JObj [(''error'', JObj [(''details'', JArr details)])])])]"


section \<open>Basic facts\<close>

lemma startsWith_data_nonempty: "startsWith ''data: '' l \<Longrightarrow> l \<noteq> []"
  by (auto simp: startsWith_def)

lemma yielded_append: "yielded (xs @ ys) = yielded xs @ yielded ys"
  by (induction xs rule: yielded.induct) auto

lemma yielded_call_log: "yielded (call_log lg t d) = []"
  by (cases lg) auto

text \<open>Payload lines only grow the buffer.\<close>

lemma decode_loop_data:
  "\<forall>l\<in>set ds. startsWith ''data: '' l \<Longrightarrow>
   decode_loop rt lg url buf (ds @ rest) = decode_loop rt lg url (buf @ map fragment ds) rest"
proof (induction ds arbitrary: buf)
  case Nil
  then show ?case by simp
next
  case (Cons d ds)
  then have "startsWith ''data: '' d" and "d \<noteq> []"
    by (auto dest: startsWith_data_nonempty)
  with Cons show ?case by simp
qed

text \<open>
  One block of payload lines closed by a blank line, from an empty buffer: the joined
  fragments go to \<^verbatim>\<open>JSON.parse\<close>; its value is logged and yielded, and its
  \<^verbatim>\<open>SyntaxError\<close> ends the generator.
\<close>

lemma decode_loop_block:
  assumes "\<forall>l\<in>set b. startsWith ''data: '' l" and "b \<noteq> []"
  shows "decode_loop rt lg url [] (b @ '''' # rest) =
     (case JSON_parse rt (join [CHR 0x0A] (map fragment b)) of
        Inl e \<Rightarrow> ([], Some e)
      | Inr chunk \<Rightarrow>
          (call_log lg MODEL_RESPONSE (response_payload url chunk) @ Yield chunk #
             fst (decode_loop rt lg url [] rest),
           snd (decode_loop rt lg url [] rest)))"
  using assms by (simp add: decode_loop_data split: sum.splits prod.splits)

section \<open>The stream decoder\<close>

text \<open>
  C2. A line sequence made of blocks, each a run of lines that begin with
  \<^verbatim>\<open>"data: "\<close> followed by a blank line (a block may be empty: a blank line that
  arrives while nothing is buffered). Where \<^verbatim>\<open>JSON.parse\<close> returns a value for the
  joined fragments of every non-empty block, the generator yields exactly one message
  per non-empty block, in order, equal to \<^verbatim>\<open>JSON.parse\<close> of the block's fragments
  (each line without its first six characters, trimmed) joined with a line feed, and it
  completes without an error; an empty block yields nothing.
\<close>

theorem decoder_frames_blocks:
  assumes "\<forall>b\<in>set blocks. \<forall>l\<in>set b. startsWith ''data: '' l"
    and "\<forall>b\<in>set blocks. b \<noteq> [] \<longrightarrow>
           (\<exists>v. JSON_parse rt (join [CHR 0x0A] (map fragment b)) = Inr v)"
  shows "yielded (fst (decode_loop rt lg url [] (concat (map (\<lambda>b. b @ ['''']) blocks)))) =
           map (\<lambda>b. projr (JSON_parse rt (join [CHR 0x0A] (map fragment b))))
               (filter (\<lambda>b. b \<noteq> []) blocks)
         \<and> snd (decode_loop rt lg url [] (concat (map (\<lambda>b. b @ ['''']) blocks))) = None"
  using assms
proof (induction blocks)
  case Nil
  then show ?case by simp
next
  case (Cons b blocks)
  then have IH:
    "yielded (fst (decode_loop rt lg url [] (concat (map (\<lambda>b. b @ ['''']) blocks)))) =
       map (\<lambda>b. projr (JSON_parse rt (join [CHR 0x0A] (map fragment b))))
           (filter (\<lambda>b. b \<noteq> []) blocks)
     \<and> snd (decode_loop rt lg url [] (concat (map (\<lambda>b. b @ ['''']) blocks))) = None"
    by simp
  show ?case
  proof (cases "b = []")
    case True
    with IH show ?thesis by simp
  next
    case False
    from Cons.prems False obtain v
      where v: "JSON_parse rt (join [CHR 0x0A] (map fragment b)) = Inr v"
      by auto
    from Cons.prems have d: "\<forall>l\<in>set b. startsWith ''data: '' l" by simp
    show ?thesis
      using IH False v
        decode_loop_block [OF d False, of rt lg url "concat (map (\<lambda>b. b @ ['''']) blocks)"]
      by (simp add: yielded_append yielded_call_log)
  qed
qed

theorem decoder_frames_blocks_witness:
  "yielded (fst (decode_loop sample_runtime None ''u'' []
      [''data: [1,'', ''data:   2]  '', '''', '''', ''data: 2'', ''''])) =
     [JArr [JNum 1, JNum 2], JNum 2]
   \<and> snd (decode_loop sample_runtime None ''u'' []
      [''data: [1,'', ''data:   2]  '', '''', '''', ''data: 2'', '''']) = None"
  using decoder_frames_blocks
    [of "[[''data: [1,'', ''data:   2]  ''], [], [''data: 2'']]" sample_runtime None "''u''"]
  by (simp add: sample_runtime_def sample_parse_def startsWith_def fragment_def trim_def
                isWhiteSpace_def)

text \<open>
  C3. When the generator gets to a line that is neither empty nor begins with
  \<^verbatim>\<open>"data: "\<close> (the lines before it were processed without an error), it throws an
  error whose message is \<^verbatim>\<open>Unexpected line format in response: \<close> followed by that
  line as it is; the messages yielded are those of the lines before it, and nothing of
  the lines after it is processed, whatever they are.
\<close>

theorem decoder_protocol_violation:
  assumes "line \<noteq> ''''" and "\<not> startsWith ''data: '' line"
    and "snd (decode_loop rt lg url buf pre) = None"
  shows "decode_loop rt lg url buf (pre @ line # post) =
           (fst (decode_loop rt lg url buf pre),
            Some (ErrorObj (''Unexpected line format in response: '' @ line)))"
  using assms
proof (induction pre arbitrary: buf)
  case Nil
  then show ?case by simp
next
  case (Cons l pre)
  then show ?case
    by (auto split: sum.splits prod.splits if_splits)
qed

theorem decoder_protocol_violation_witness:
  "decode_loop sample_runtime None ''u'' [] ([''data: 1'', ''''] @ ''oops'' # [''data: 2'', '''']) =
     ([Yield (JNum 1)], Some (ErrorObj ''Unexpected line format in response: oops''))"
  using decoder_protocol_violation
    [of "''oops''" sample_runtime None "''u''" "[]" "[''data: 1'', '''']" "[''data: 2'', '''']"]
  by (simp add: sample_runtime_def sample_parse_def startsWith_def fragment_def trim_def
                isWhiteSpace_def)

text \<open>
  C4. When the line stream ends with a block of lines that begin with \<^verbatim>\<open>"data: "\<close>
  and no blank line after it, the generator does with the whole stream exactly what it
  does with the lines before that block: the fragments of the block are dropped, no
  message is yielded for them and no error is thrown for them.
\<close>

theorem decoder_discards_unterminated:
  assumes "\<forall>l\<in>set ds. startsWith ''data: '' l"
  shows "decode_loop rt lg url buf (pre @ ds) = decode_loop rt lg url buf pre"
proof (induction pre arbitrary: buf)
  case Nil
  have "decode_loop rt lg url buf (ds @ []) = decode_loop rt lg url (buf @ map fragment ds) []"
    using assms by (rule decode_loop_data)
  then show ?case by simp
next
  case (Cons l pre)
  then show ?case by (simp split: sum.splits prod.splits)
qed

theorem decoder_discards_unterminated_witness:
  "decode_loop sample_runtime None ''u'' [] ([''data: 1'', ''''] @ [''data: 2'', ''data: 2'']) =
     ([Yield (JNum 1)], None)"
  using decoder_discards_unterminated
    [of "[''data: 2'', ''data: 2'']" sample_runtime None "''u''" "[]" "[''data: 1'', '''']"]
  by (simp add: sample_runtime_def sample_parse_def startsWith_def fragment_def trim_def
                isWhiteSpace_def)

section \<open>Logging around a call\<close>






section \<open>Failures of the logger\<close>


text \<open>
  For a logger whose \<^verbatim>\<open>log\<close> always returns a promise, the functions for a logger of
  any behaviour are the functions of the server.
\<close>

lemma invoke_log_async:
  "invoke_log (map_option (\<lambda>f type data. Returned (f type data)) lg) t d = (call_log lg t d, None)"
  by (cases lg) auto

lemma decode_loop_any_async:
  "decode_loop_any rt (map_option (\<lambda>f type data. Returned (f type data)) lg) url buf lines =
   decode_loop rt lg url buf lines"
  by (induction rt lg url buf lines rule: decode_loop.induct)
     (auto simp: invoke_log_async response_payload_def split: sum.splits prod.splits)

lemma requests_any_async:
  "requestPost_any rt srv (map_option (\<lambda>f type data. Returned (f type data)) (sessionLogger srv))
     method req signal = requestPost rt srv method req signal"
  "requestGet_any rt srv (map_option (\<lambda>f type data. Returned (f type data)) (sessionLogger srv))
     method signal = requestGet rt srv method signal"
  "requestStreamingPost_any rt srv
     (map_option (\<lambda>f type data. Returned (f type data)) (sessionLogger srv))
     method req signal = requestStreamingPost rt srv method req signal"
  by (simp_all add: requestPost_any_def requestPost_def requestGet_any_def requestGet_def
        requestStreamingPost_any_def requestStreamingPost_def invoke_log_async
        decode_loop_any_async Let_def split: sum.splits)












section \<open>Cancellation\<close>

text \<open>
  The generator does not look at the signal. A transport that has delivered the lines of
  two messages makes the sequence yield both, although the signal fires once the first
  has been yielded: message \<open>N + 1\<close> is produced for \<open>N = 1\<close>.
\<close>

theorem cancellation_counterexample:
  "snd (requestStreamingPost sample_runtime
          (sample_server (answering_client JNull [''data: 1'', '''', ''data: 2'', '''']) None)
          ''streamGenerateContent'' (JObj []) (Some (FiresAfter 1)))
     = Inr ([Yield (JNum 1), Yield (JNum 2)], None)"
  by (simp add: requestStreamingPost_def sample_runtime_def sample_server_def answering_client_def
                sample_parse_def startsWith_def fragment_def trim_def isWhiteSpace_def Let_def)

text \<open>Cutting the line stream short only cuts the sequence of messages short.\<close>

lemma yielded_prefix_take:
  "prefix (yielded (fst (decode_loop rt lg url buf (take k lines))))
          (yielded (fst (decode_loop rt lg url buf lines)))"
proof (induction lines arbitrary: k buf)
  case Nil
  then show ?case by simp
next
  case (Cons l lines)
  show ?case
  proof (cases k)
    case 0
    then show ?thesis by simp
  next
    case (Suc k')
    then show ?thesis
      using Cons [of "[]" k'] Cons [of buf k'] Cons [of "buf @ [fragment l]" k']
      by (auto simp: yielded_append yielded_call_log case_prod_beta split: sum.splits)
  qed
qed

text \<open>
  C5, as the code has it. The cancellation signal of a streaming call is handed to the
  transport with the request and is read nowhere else: if the transport answers alike
  whatever the signal, the call does the same for every signal. The sequence stops when
  the transport stops delivering lines: for a line stream that ends after its first
  \<open>k\<close> lines, the messages yielded are a prefix of those of the whole stream, so the
  messages already yielded are unaffected and nothing further is produced.
\<close>

theorem cancellation_left_to_transport:
  "((\<forall>r. request_stream (client srv) (r\<lparr>req_signal := signal\<rparr>) =
          request_stream (client srv) (r\<lparr>req_signal := signal'\<rparr>)) \<longrightarrow>
      requestStreamingPost rt srv method req signal =
      requestStreamingPost rt srv method req signal')
   \<and> prefix (yielded (fst (decode_loop rt lg url buf (take k lines))))
            (yielded (fst (decode_loop rt lg url buf lines)))"
proof -
  have "requestStreamingPost rt srv method req signal =
        requestStreamingPost rt srv method req signal'"
    if h: "\<forall>r. request_stream (client srv) (r\<lparr>req_signal := signal\<rparr>) =
               request_stream (client srv) (r\<lparr>req_signal := signal'\<rparr>)"
  proof -
    from h [rule_format, of
        "\<lparr>req_url = getMethodUrl rt method, req_method = ''POST'',
          req_params = [(''alt'', ''sse'')], req_headers = json_headers srv,
          req_responseType = ''stream'', req_body = Some (JSON_stringify rt req),
          req_signal = None\<rparr>"]
    show ?thesis
      by (simp add: requestStreamingPost_def Let_def)
  qed
  then show ?thesis
    using yielded_prefix_take by blast
qed

theorem cancellation_left_to_transport_witness:
  "requestStreamingPost sample_runtime
      (sample_server (answering_client JNull [''data: 1'', '''', ''data: 2'', '''']) None)
      ''streamGenerateContent'' (JObj []) (Some (FiresAfter 1)) =
   requestStreamingPost sample_runtime
      (sample_server (answering_client JNull [''data: 1'', '''', ''data: 2'', '''']) None)
      ''streamGenerateContent'' (JObj []) None
   \<and> prefix (yielded (fst (decode_loop sample_runtime None ''u'' []
                (take 2 [''data: 1'', '''', ''data: 2'', '''']))))
            (yielded (fst (decode_loop sample_runtime None ''u'' []
                [''data: 1'', '''', ''data: 2'', ''''])))"
  using cancellation_left_to_transport
    [of "sample_server (answering_client JNull [''data: 1'', '''', ''data: 2'', '''']) None"
        "Some (FiresAfter 1)" None sample_runtime "''streamGenerateContent''" "JObj []"
        None "''u''" "[]" 2 "[''data: 1'', '''', ''data: 2'', '''']"]
  by (simp add: sample_server_def answering_client_def)

section \<open>The method URL\<close>

text \<open>
  C6. For every method name, \<^verbatim>\<open>getMethodUrl\<close> returns the endpoint, \<^verbatim>\<open>/\<close>, the
  version \<^verbatim>\<open>v1internal\<close>, \<^verbatim>\<open>:\<close> and the method name; the endpoint is the value
  of \<^verbatim>\<open>CODE_ASSIST_ENDPOINT\<close> in the environment as it is when that is set, and
  \<^verbatim>\<open>https://cloudcode-pa.googleapis.com\<close> otherwise. The environment is read at the
  call: after the variable is set the next call uses the new value, after it is removed
  the next call uses the default.
\<close>

theorem getMethodUrl_format:
  "getMethodUrl rt method =
     (case process_env rt ''CODE_ASSIST_ENDPOINT'' of
        Some endpoint \<Rightarrow> endpoint
      | None \<Rightarrow> ''https://cloudcode-pa.googleapis.com'') @ ''/v1internal:'' @ method
   \<and> getMethodUrl (rt\<lparr>process_env := (process_env rt)(''CODE_ASSIST_ENDPOINT'' \<mapsto> endpoint')\<rparr>) method =
       endpoint' @ ''/v1internal:'' @ method
   \<and> getMethodUrl (rt\<lparr>process_env := (process_env rt)(''CODE_ASSIST_ENDPOINT'' := None)\<rparr>) method =
       ''https://cloudcode-pa.googleapis.com/v1internal:'' @ method"
  by (simp add: getMethodUrl_def CODE_ASSIST_ENDPOINT_def CODE_ASSIST_API_VERSION_def
           split: option.splits)

section \<open>Operations that always fail, and the tier fallback\<close>

text \<open>
  C9. For every request, \<^verbatim>\<open>embedContent\<close> fails with an \<^verbatim>\<open>Error\<close> (of the empty
  message); it never returns a result, and it calls neither the logger nor the
  transport.
\<close>

theorem embedContent_throws:
  "embedContent rt srv req = ([], Inl (ErrorObj ''''))
   \<and> (\<forall>v. snd (embedContent rt srv req) \<noteq> Inr v)"
  by (simp add: embedContent_def)

text \<open>Where the classifier is well behaved.\<close>

lemma getProp_optGet: "v \<noteq> JNull \<Longrightarrow> v \<noteq> JUndefined \<Longrightarrow> getProp v k = Inr (optGet v k)"
  by (cases v) auto

lemma some_reason_total:
  "JNull \<notin> set details \<Longrightarrow> JUndefined \<notin> set details \<Longrightarrow>
   some_reason details =
     Inr (\<exists>d\<in>set details. optGet d ''reason'' = JStr ''SECURITY_POLICY_VIOLATED'')"
  by (induction details) (auto simp: getProp_optGet)

lemma some_reason_throws:
  "some_reason details = Inl e \<Longrightarrow>
   e = TypeError \<and> (JNull \<in> set details \<or> JUndefined \<in> set details)"
proof (induction details)
  case Nil
  then show ?case by simp
next
  case (Cons d details)
  then show ?case by (cases d) (auto split: if_splits option.splits)
qed

lemma isVpcScAffectedUser_no_details:
  "(\<forall>details. optGet (optGet (optGet (optGet v ''response'') ''data'') ''error'') ''details''
       \<noteq> JArr details)
   \<Longrightarrow> isVpcScAffectedUser (Thrown v) = Inr False"
  by (auto simp: isVpcScAffectedUser_value_def split: jsval.splits)

lemma isVpcScAffectedUser_details:
  assumes "optGet (optGet (optGet (optGet v ''response'') ''data'') ''error'') ''details''
             = JArr details"
    and "JNull \<notin> set details" and "JUndefined \<notin> set details"
  shows "isVpcScAffectedUser (Thrown v) =
           Inr (\<exists>d\<in>set details. optGet d ''reason'' = JStr ''SECURITY_POLICY_VIOLATED'')"
proof -
  from assms(1) obtain kvs where v: "v = JObj kvs"
    by (cases v) auto
  with assms(1) have "map_of kvs ''response'' \<noteq> None"
    by (auto split: option.splits)
  with v assms show ?thesis
    by (simp add: isVpcScAffectedUser_value_def some_reason_total)
qed

text \<open>
  C10. The classifier on the error of a response whose body is
  \<^verbatim>\<open>{"error": {"details": [null]}}\<close>: the callback of \<^verbatim>\<open>some\<close> reads
  \<^verbatim>\<open>reason\<close> of \<^verbatim>\<open>null\<close>, and the classifier throws a \<^verbatim>\<open>TypeError\<close> instead
  of returning \<^verbatim>\<open>false\<close>.
\<close>

theorem classifier_throws_on_null_detail:
  "isVpcScAffectedUser (Thrown (policy_error [JNull])) = Inl TypeError"
  by (simp add: isVpcScAffectedUser_value_def policy_error_def)

text \<open>
  What \<^verbatim>\<open>loadCodeAssist\<close> returns, from what \<^verbatim>\<open>requestPost\<close> returns: the
  default tier where the classifier says yes, the caught error where it says no, and
  the classifier's own error where it throws. Every other operation passes the error
  of \<^verbatim>\<open>requestPost\<close> or \<^verbatim>\<open>requestGet\<close> on, which is the transport's.
\<close>

lemma loadCodeAssist_result:
  "snd (loadCodeAssist rt srv req) =
     (case snd (requestPost rt srv ''loadCodeAssist'' req None) of
        Inr v \<Rightarrow> Inr v
      | Inl e \<Rightarrow>
          (case isVpcScAffectedUser e of
             Inl e' \<Rightarrow> Inl e'
           | Inr b \<Rightarrow>
               if b then Inr (JObj [(''currentTier'', JObj [(''id'', UserTierId_STANDARD rt)])])
               else Inl e))"
  by (simp add: loadCodeAssist_def split: prod.splits sum.splits bool.splits)

lemma requestPost_propagates:
  "snd (requestPost rt srv method req signal) =
     request_json (client srv)
       \<lparr>req_url = getMethodUrl rt method, req_method = ''POST'', req_params = [],
        req_headers = json_headers srv, req_responseType = ''json'',
        req_body = Some (JSON_stringify rt req), req_signal = signal\<rparr>"
  by (simp add: requestPost_def Let_def split: sum.splits)

lemma requestGet_propagates:
  "snd (requestGet rt srv method signal) =
     request_json (client srv)
       \<lparr>req_url = getMethodUrl rt method, req_method = ''GET'', req_params = [],
        req_headers = json_headers srv, req_responseType = ''json'',
        req_body = None, req_signal = signal\<rparr>"
  by (simp add: requestGet_def Let_def split: sum.splits)

lemma other_operations_propagate:
  "snd (requestPost rt srv ''onboardUser'' req None) = Inl e \<Longrightarrow>
     snd (onboardUser rt srv req) = Inl e"
  "snd (requestPost rt srv ''countTokens'' (toCountTokenRequest rt req) None) = Inl e \<Longrightarrow>
     snd (countTokens rt srv req) = Inl e"
  "snd (requestPost rt srv ''setCodeAssistGlobalUserSetting'' req None) = Inl e \<Longrightarrow>
     snd (setCodeAssistGlobalUserSetting rt srv req) = Inl e"
  "snd (requestGet rt srv ''getCodeAssistGlobalUserSetting'' None) = Inl e \<Longrightarrow>
     snd (getCodeAssistGlobalUserSetting rt srv) = Inl e"
  by (auto simp: onboardUser_def countTokens_def setCodeAssistGlobalUserSetting_def
                 getCodeAssistGlobalUserSetting_def split: prod.splits sum.splits)

text \<open>
  C1. \<^verbatim>\<open>loadCodeAssist\<close> when the transport fails with the error of a response whose
  body is \<^verbatim>\<open>{"error": {"details": [null]}}\<close>, an error without the reason
  \<^verbatim>\<open>SECURITY_POLICY_VIOLATED\<close>: the caller gets the \<^verbatim>\<open>TypeError\<close> of the
  classifier, not the error of the transport.
\<close>

theorem loadCodeAssist_loses_error_on_null_detail:
  "snd (loadCodeAssist rt (srv\<lparr>client := failing_client (policy_error [JNull])\<rparr>) req)
     = Inl TypeError"
  by (simp add: loadCodeAssist_result requestPost_propagates failing_client_def
                isVpcScAffectedUser_value_def policy_error_def)

end
